theory Spec2Isabelle
  imports Main
begin

section \<open>Exceptions\<close>

text \<open>
  A Python exception is modelled by its class and by the text \<open>str(e)\<close>. The handlers of
  \<open>main.py\<close> only ever look at \<open>str(e)\<close>.
\<close>

datatype exn_kind =
    KeyError | IndexError | TypeError | AttributeError | ValueError | UnicodeError
  | OSError | JSONDecodeError | KeyringError | SMTPError | IMAPError

datatype exn = Exn (kind: exn_kind) (str: string)

text \<open>Sequencing of calls that may raise: the first exception ends the computation.\<close>

definition and_then :: "exn + 'a \<Rightarrow> ('a \<Rightarrow> exn + 'b) \<Rightarrow> exn + 'b" where
  "and_then r f = (case r of Inl e \<Rightarrow> Inl e | Inr x \<Rightarrow> f x)"

definition raising :: "exn option \<Rightarrow> exn + unit" where
  "raising r = (case r of Some e \<Rightarrow> Inl e | None \<Rightarrow> Inr ())"

subsection \<open>\<open>repr\<close> of a string, the text of a \<open>KeyError\<close>\<close>

text \<open>
  \<open>str(KeyError(k))\<close> is \<open>repr(k)\<close>. The quote is \<open>'\<close> unless the string has a \<open>'\<close> and no
  \<open>"\<close>; the quote and the backslash are escaped, as are tab, newline, carriage return and
  the other ASCII control characters. Bytes from 0x80 on are copied (Python leaves printable
  non-ASCII characters as they are).
\<close>

definition hex_digit :: "nat \<Rightarrow> char" where
  "hex_digit n = ''0123456789abcdef'' ! n"

definition repr_char :: "char \<Rightarrow> char \<Rightarrow> string" where
  "repr_char q c =
     (if c = q \<or> c = CHR 0x5C then [CHR 0x5C, c]
      else if c = CHR 0x09 then [CHR 0x5C, CHR ''t'']
      else if c = CHR 0x0A then [CHR 0x5C, CHR ''n'']
      else if c = CHR 0x0D then [CHR 0x5C, CHR ''r'']
      else if (of_char c :: nat) < 32 \<or> (of_char c :: nat) = 127
        then [CHR 0x5C, CHR ''x'', hex_digit ((of_char c :: nat) div 16),
              hex_digit ((of_char c :: nat) mod 16)]
      else [c])"

definition py_repr :: "string \<Rightarrow> string" where
  "py_repr s =
     (let q = (if CHR 0x27 \<in> set s \<and> CHR 0x22 \<notin> set s then CHR 0x22 else CHR 0x27)
      in q # concat (map (repr_char q) s) @ [q])"

definition key_error :: "string \<Rightarrow> exn" where
  "key_error k = Exn KeyError (py_repr k)"

section \<open>Data\<close>

text \<open>
  The connection settings that \<open>quick_setup\<close> stores, and the configuration dictionary
  \<open>self.config\<close>: only its key \<open>'accounts'\<close> is ever used, so the configuration is the
  value under that key, \<open>None\<close> when the key is absent. A Python dictionary keeps its keys
  in insertion order, so the accounts are an association list with distinct keys.
\<close>

record settings =
  smtp_server :: string
  smtp_port :: int
  imap_server :: string
  imap_port :: int

type_synonym accounts = "(string \<times> settings) list"

type_synonym config = "accounts option"

text \<open>\<open>d[k] = v\<close>: an existing key keeps its place, a new key goes last.\<close>

fun dict_set :: "'k \<Rightarrow> 'v \<Rightarrow> ('k \<times> 'v) list \<Rightarrow> ('k \<times> 'v) list" where
  "dict_set k v [] = [(k, v)]"
| "dict_set k v (p # ps) = (if fst p = k then (k, v) # ps else p # dict_set k v ps)"

text \<open>\<open>d[k]\<close>: raises \<open>KeyError(k)\<close> when the key is missing.\<close>

definition dict_get :: "(string \<times> 'v) list \<Rightarrow> string \<Rightarrow> exn + 'v" where
  "dict_get d k = (case map_of d k of None \<Rightarrow> Inl (key_error k) | Some v \<Rightarrow> Inr v)"

text \<open>\<open>self.config['accounts'][account]\<close>\<close>

definition account_settings :: "config \<Rightarrow> string \<Rightarrow> exn + settings" where
  "account_settings c account =
     (case c of None \<Rightarrow> Inl (key_error ''accounts'') | Some accs \<Rightarrow> dict_get accs account)"

subsection \<open>The configuration file\<close>

text \<open>
  The text of a file is kept up to what \<open>json.loads\<close> makes of it: \<open>Json_text c\<close> is
  \<open>json.dumps(c, indent=2)\<close> for a configuration \<open>c\<close>, which \<open>json.loads\<close> reads back as
  \<open>c\<close>; \<open>Bad_text t\<close> is a text \<open>t\<close> that \<open>json.loads\<close> rejects, the empty text among them.
\<close>

datatype file_text = Json_text config | Bad_text string

type_synonym file_system = "string \<Rightarrow> file_text option"

definition CONFIG_FILE :: string where
  "CONFIG_FILE = ''~/.config/modern-mail/config.json''"

text \<open>
  The calls a program makes on the file system. \<open>Path.write_text(data)\<close> is
  \<open>open(mode='w')\<close>, which creates the file or cuts it to length zero, followed by the
  write of \<open>data\<close>. A rename is what a write through a temporary file would end with.
\<close>

datatype fs_op = Open_w string | Write string file_text | Rename string string

fun apply_fs_op :: "file_system \<Rightarrow> fs_op \<Rightarrow> file_system" where
  "apply_fs_op fs (Open_w p) = fs(p \<mapsto> Bad_text [])"
| "apply_fs_op fs (Write p t) = fs(p \<mapsto> t)"
| "apply_fs_op fs (Rename p q) = (fs(q := fs p))(p := None)"

definition run_fs_ops :: "file_system \<Rightarrow> fs_op list \<Rightarrow> file_system" where
  "run_fs_ops fs ops = foldl apply_fs_op fs ops"

definition write_text_ops :: "string \<Rightarrow> file_text \<Rightarrow> fs_op list" where
  "write_text_ops p t = [Open_w p, Write p t]"

subsection \<open>Messages\<close>

text \<open>
  A message as \<open>email.message_from_bytes\<close> returns it, by what the program reads from it:
  the header fields in order, \<open>get_content_type()\<close>, \<open>get_filename()\<close>, and the payload,
  which is either a list of parts (\<open>is_multipart()\<close>) or a body, kept as the outcome of
  \<open>get_payload(decode=True).decode()\<close>.
\<close>

datatype message =
    Part (headers: "(string \<times> string) list") (content_type: string)
         (filename: "string option") (decoded: "exn + string")
  | Multi (headers: "(string \<times> string) list") (content_type: string)
          (filename: "string option") (parts: "message list")

fun is_multipart :: "message \<Rightarrow> bool" where
  "is_multipart (Part _ _ _ _) = False"
| "is_multipart (Multi _ _ _ _) = True"

definition lower_char :: "char \<Rightarrow> char" where
  "lower_char c =
     (if (65::nat) \<le> of_char c \<and> (of_char c :: nat) \<le> 90
      then char_of ((of_char c :: nat) + 32) else c)"

definition lower :: "string \<Rightarrow> string" where
  "lower s = map lower_char s"

text \<open>\<open>msg[name]\<close> and \<open>msg.get(name)\<close>: the first field of that name, whatever its case.\<close>

fun find_header :: "(string \<times> string) list \<Rightarrow> string \<Rightarrow> string option" where
  "find_header [] name = None"
| "find_header ((k, v) # hs) name = (if lower k = lower name then Some v else find_header hs name)"

definition get_header :: "message \<Rightarrow> string \<Rightarrow> string option" where
  "get_header m name = find_header (headers m) name"

text \<open>\<open>get_content_maintype()\<close>: the content type up to its \<open>/\<close>.\<close>

definition get_content_maintype :: "message \<Rightarrow> string" where
  "get_content_maintype m = takeWhile (\<lambda>c. c \<noteq> CHR ''/'') (content_type m)"

text \<open>\<open>walk()\<close>: the message itself, then its parts, depth first.\<close>

fun walk :: "message \<Rightarrow> message list" where
  "walk (Part h c f t) = [Part h c f t]"
| "walk (Multi h c f ps) = Multi h c f ps # concat (map walk ps)"

text \<open>\<open>part.get_payload(decode=True).decode()\<close>: for a list of parts the payload is \<open>None\<close>.\<close>

fun decode_payload :: "message \<Rightarrow> exn + string" where
  "decode_payload (Part _ _ _ t) = t"
| "decode_payload (Multi _ _ _ _) =
     Inl (Exn AttributeError
       (CHR 0x27 # ''NoneType'' @ CHR 0x27 # '' object has no attribute '' @
        CHR 0x27 # ''decode'' @ [CHR 0x27]))"

text \<open>
  The message \<open>send_email\<close> builds: a \<open>MIMEMultipart\<close> with its header fields and the
  attached parts. \<open>Octet_stream data hs\<close> is a \<open>MIMEBase('application', 'octet-stream')\<close>
  whose payload \<open>data\<close> went through \<open>encoders.encode_base64\<close> and which then received the
  header fields \<open>hs\<close>.
\<close>

datatype mime_part = MIMEText string | Octet_stream string "(string \<times> string) list"

record mime_multipart =
  mime_headers :: "(string \<times> string) list"
  mime_parts :: "mime_part list"

section \<open>The world outside the program\<close>

text \<open>
  What the libraries and the servers answer. Each call either raises or returns the value
  the program goes on to use; where the program indexes into an answer (\<open>messages[0]\<close>,
  \<open>msg[0][1]\<close>, \<open>flags[0].decode()\<close>) an answer of another shape raises as well, and that
  is part of the same outcome.
  \<^item> \<open>write_fault\<close>: \<open>Some (k, e)\<close> makes \<open>Path.write_text\<close> raise \<open>e\<close> after \<open>k\<close> of its
    file-system calls;
  \<^item> \<open>json_error t\<close>: what \<open>json.loads\<close> raises on a text \<open>t\<close> it rejects;
  \<^item> \<open>imap_search\<close>: \<open>imap.search(None, "ALL")\<close> followed by \<open>messages[0]\<close>;
  \<^item> \<open>imap_fetch_rfc822 num\<close>: \<open>imap.fetch(num, "(RFC822)")\<close> followed by
    \<open>email.message_from_bytes(msg[0][1])\<close>;
  \<^item> \<open>imap_fetch_flags num\<close>: \<open>imap.fetch(num, "(FLAGS)")\<close> followed by \<open>flags[0].decode()\<close>;
  \<^item> \<open>format_date v\<close>: \<open>email.utils.format_datetime(email.utils.parsedate_to_datetime(v))\<close>.
  The \<open>logout\<close> and \<open>quit\<close> on leaving a \<open>with\<close> block are not part of the model.
\<close>

record env =
  keyring_set_error :: "exn option"
  keyring_get_error :: "exn option"
  write_fault :: "(nat \<times> exn) option"
  json_error :: "string \<Rightarrow> exn"
  read_bytes :: "string \<Rightarrow> exn + string"
  smtp_connect :: "string \<Rightarrow> int \<Rightarrow> exn option"
  smtp_starttls :: "exn option"
  smtp_login :: "string \<Rightarrow> string option \<Rightarrow> exn option"
  smtp_send_message :: "mime_multipart \<Rightarrow> exn option"
  imap_connect :: "string \<Rightarrow> int \<Rightarrow> exn option"
  imap_login :: "string \<Rightarrow> string option \<Rightarrow> exn option"
  imap_select :: "string \<Rightarrow> exn option"
  imap_search :: "exn + string"
  imap_fetch_rfc822 :: "string \<Rightarrow> exn + message"
  imap_fetch_flags :: "string \<Rightarrow> exn + string"
  format_date :: "string option \<Rightarrow> exn + string"

section \<open>The state of the client\<close>

text \<open>What the window shows: message boxes, the accepted dialog, the message viewer.\<close>

datatype ui_event =
    Information string string
  | Warning string string
  | Critical string string
  | Dialog_accept
  | Viewer "string list" string "string option"

text \<open>
  The attributes of \<open>ModernEmailClient\<close> that the operations read and write, together with
  the two stores they change: the keyring and the files. \<open>current_setup\<close> is \<open>None\<close> until
  \<open>quick_setup\<close> has created the attribute. \<open>selector_items\<close> and \<open>selector_text\<close> are the
  items of \<open>account_selector\<close> and its \<open>currentText()\<close>.
\<close>

record state =
  config :: config
  current_setup :: "settings option"
  attachments :: "string list"
  selector_items :: "string list"
  selector_text :: string
  progress_visible :: bool
  email_table :: "string list list"
  ui_log :: "ui_event list"
  secrets :: "string \<times> string \<Rightarrow> string option"
  files :: file_system

definition show_dialog :: "ui_event \<Rightarrow> state \<Rightarrow> state" where
  "show_dialog ev st = st\<lparr>ui_log := ui_log st @ [ev]\<rparr>"

subsection \<open>Keyring\<close>

definition keyring_get_password :: "env \<Rightarrow> state \<Rightarrow> string \<Rightarrow> string \<Rightarrow> exn + string option" where
  "keyring_get_password env st service user =
     (case keyring_get_error env of
        Some e \<Rightarrow> Inl e
      | None \<Rightarrow> Inr (secrets st (service, user)))"

definition keyring_set_password :: "env \<Rightarrow> state \<Rightarrow> string \<Rightarrow> string \<Rightarrow> string \<Rightarrow> exn + state" where
  "keyring_set_password env st service user password =
     (case keyring_set_error env of
        Some e \<Rightarrow> Inl e
      | None \<Rightarrow> Inr (st\<lparr>secrets := (secrets st)((service, user) \<mapsto> password)\<rparr>))"

section \<open>Configuration: \<open>load_config\<close>, \<open>save_config\<close>, \<open>update_account_list\<close>\<close>

text \<open>
  \<open>clear()\<close>, then \<open>addItems\<close> of the keys when \<open>self.config.get('accounts')\<close> is true, that
  is when the key is there and its dictionary is not empty. A combo box that receives its
  first items makes the first one current.
\<close>

definition update_account_list :: "state \<Rightarrow> state" where
  "update_account_list st =
     (let items = (case config st of
                     None \<Rightarrow> []
                   | Some accs \<Rightarrow> if accs = [] then [] else map fst accs)
      in st\<lparr>selector_items := items,
            selector_text := (case items of [] \<Rightarrow> [] | a # _ \<Rightarrow> a)\<rparr>)"

definition load_config :: "env \<Rightarrow> state \<Rightarrow> exn option \<times> state" where
  "load_config env st =
     (let st1 = st\<lparr>config := None\<rparr>
      in case files st1 CONFIG_FILE of
           None \<Rightarrow> (None, st1)
         | Some (Bad_text t) \<Rightarrow> (Some (json_error env t), st1)
         | Some (Json_text c) \<Rightarrow> (None, update_account_list (st1\<lparr>config := c\<rparr>)))"

definition write_text :: "env \<Rightarrow> string \<Rightarrow> file_text \<Rightarrow> state \<Rightarrow> exn option \<times> state" where
  "write_text env p t st =
     (let ops = write_text_ops p t
      in case write_fault env of
           None \<Rightarrow> (None, st\<lparr>files := run_fs_ops (files st) ops\<rparr>)
         | Some (k, e) \<Rightarrow>
             if k < length ops
             then (Some e, st\<lparr>files := run_fs_ops (files st) (take k ops)\<rparr>)
             else (None, st\<lparr>files := run_fs_ops (files st) ops\<rparr>))"

definition save_config :: "env \<Rightarrow> state \<Rightarrow> exn option \<times> state" where
  "save_config env st =
     (case write_text env CONFIG_FILE (Json_text (config st)) st of
        (Some e, st1) \<Rightarrow> (Some e, st1)
      | (None, st1) \<Rightarrow> (None, update_account_list st1))"

text \<open>The file-system calls of one \<open>save_config\<close>, and the files after the first \<open>k\<close> of them.\<close>

definition save_config_ops :: "state \<Rightarrow> fs_op list" where
  "save_config_ops st = write_text_ops CONFIG_FILE (Json_text (config st))"

definition files_during_save :: "state \<Rightarrow> nat \<Rightarrow> file_system" where
  "files_during_save st k = run_fs_ops (files st) (take k (save_config_ops st))"

section \<open>Adding an account: \<open>quick_setup\<close>, \<open>save_account\<close>\<close>

definition quick_setup :: "state \<Rightarrow> string \<Rightarrow> int \<Rightarrow> string \<Rightarrow> int \<Rightarrow> state" where
  "quick_setup st smtp_server' smtp_port' imap_server' imap_port' =
     (let st1 = (if config st = None then st\<lparr>config := Some []\<rparr> else st)
      in st1\<lparr>current_setup := Some \<lparr>smtp_server = smtp_server', smtp_port = smtp_port',
                                     imap_server = imap_server', imap_port = imap_port'\<rparr>\<rparr>)"

section \<open>Reading the mailbox: \<open>refresh_emails\<close>\<close>

text \<open>\<open>bytes.split()\<close>: the maximal runs of bytes that are not ASCII white space.\<close>

definition is_space :: "char \<Rightarrow> bool" where
  "is_space c = (c \<in> set [CHR 0x20, CHR 0x09, CHR 0x0A, CHR 0x0D, CHR 0x0B, CHR 0x0C])"

fun split_from :: "string \<Rightarrow> string \<Rightarrow> string list" where
  "split_from cur [] = (if cur = [] then [] else [cur])"
| "split_from cur (c # cs) =
     (if is_space c
      then (if cur = [] then split_from [] cs else cur # split_from [] cs)
      else split_from (cur @ [c]) cs)"

definition py_split :: "string \<Rightarrow> string list" where
  "py_split s = split_from [] s"

text \<open>\<open>xs[-20:]\<close>\<close>

definition last20 :: "'a list \<Rightarrow> 'a list" where
  "last20 xs = drop (length xs - 20) xs"

text \<open>\<open>sub in s\<close> for strings\<close>

fun contains :: "string \<Rightarrow> string \<Rightarrow> bool" where
  "contains sub [] = (sub = [])"
| "contains sub (c # cs) = (take (length sub) (c # cs) = sub \<or> contains sub cs)"

definition seen_marker :: string where
  "seen_marker = CHR 0x5C # ''Seen''"

text \<open>The two status icons, U+1F4E8 and U+1F4E9, as their UTF-8 bytes.\<close>

definition icon_read :: string where
  "icon_read = [CHR 0xF0, CHR 0x9F, CHR 0x93, CHR 0xA8]"

definition icon_unread :: string where
  "icon_unread = [CHR 0xF0, CHR 0x9F, CHR 0x93, CHR 0xA9]"

text \<open>One entry of the list \<open>emails\<close>; \<open>from_addr\<close> is the key \<open>'from'\<close>.\<close>

record summary =
  email_id :: string
  status :: string
  date :: string
  from_addr :: "string option"
  subject :: string

text \<open>\<open>x or "(No Subject)"\<close>: \<open>None\<close> and the empty string are false.\<close>

definition subject_or_default :: "string option \<Rightarrow> string" where
  "subject_or_default v =
     (case v of None \<Rightarrow> ''(No Subject)'' | Some x \<Rightarrow> if x = [] then ''(No Subject)'' else x)"

text \<open>The body of the loop over the ids, for one id.\<close>

definition fetch_summary :: "env \<Rightarrow> string \<Rightarrow> exn + summary" where
  "fetch_summary env num =
     (case imap_fetch_rfc822 env num of
        Inl e \<Rightarrow> Inl e
      | Inr email_msg \<Rightarrow>
     (case imap_fetch_flags env num of
        Inl e \<Rightarrow> Inl e
      | Inr flags \<Rightarrow>
     (let is_read = contains seen_marker flags
      in case format_date env (get_header email_msg ''date'') of
        Inl e \<Rightarrow> Inl e
      | Inr d \<Rightarrow>
          Inr \<lparr>email_id = num,
               status = (if is_read then icon_read else icon_unread),
               date = d,
               from_addr = get_header email_msg ''from'',
               subject = subject_or_default (get_header email_msg ''subject'')\<rparr>)))"

fun fetch_summaries :: "env \<Rightarrow> string list \<Rightarrow> summary list \<Rightarrow> exn + summary list" where
  "fetch_summaries env [] emails = Inr emails"
| "fetch_summaries env (num # nums) emails =
     (case fetch_summary env num of
        Inl e \<Rightarrow> Inl e
      | Inr s \<Rightarrow> fetch_summaries env nums (emails @ [s]))"

text \<open>
  The session that \<open>refresh_emails\<close> and \<open>view_email\<close> both open: connect, \<open>login\<close>,
  \<open>select("INBOX")\<close>, \<open>search(None, "ALL")\<close>; its value is \<open>messages[0]\<close>.
\<close>

definition imap_session :: "env \<Rightarrow> settings \<Rightarrow> string \<Rightarrow> string option \<Rightarrow> exn + string" where
  "imap_session env s account password =
     and_then (raising (imap_connect env (imap_server s) (imap_port s))) (\<lambda>_.
     and_then (raising (imap_login env account password)) (\<lambda>_.
     and_then (raising (imap_select env ''INBOX'')) (\<lambda>_.
     imap_search env)))"

text \<open>The \<open>try\<close> block of \<open>refresh_emails\<close> up to the end of the loop: the list \<open>emails\<close>.\<close>

definition refresh_body :: "env \<Rightarrow> state \<Rightarrow> string \<Rightarrow> exn + summary list" where
  "refresh_body env st account =
     and_then (account_settings (config st) account) (\<lambda>s.
     and_then (keyring_get_password env st ''modern-mail'' account) (\<lambda>password.
     and_then (imap_session env s account password) (\<lambda>messages0.
     fetch_summaries env (last20 (py_split messages0)) [])))"

text \<open>\<open>str(x)\<close> of a header value that may be \<open>None\<close>\<close>

definition str_of :: "string option \<Rightarrow> string" where
  "str_of v = (case v of None \<Rightarrow> ''None'' | Some x \<Rightarrow> x)"

definition table_row :: "summary \<Rightarrow> string list" where
  "table_row s = [status s, date s, str_of (from_addr s), subject s]"

definition refresh_emails :: "env \<Rightarrow> state \<Rightarrow> state" where
  "refresh_emails env st =
     (let account = selector_text st
      in if account = [] then st
         else (case refresh_body env st account of
                 Inr emails \<Rightarrow>
                   st\<lparr>email_table := map table_row (rev emails), progress_visible := False\<rparr>
               | Inl e \<Rightarrow>
                   (show_dialog (Warning ''Error'' (''Failed to fetch emails: '' @ str e)) st)
                     \<lparr>progress_visible := False\<rparr>))"

text \<open>\<open>save_account(dialog, email, password)\<close>; an exception leaves through the result.\<close>

definition save_account :: "env \<Rightarrow> state \<Rightarrow> string \<Rightarrow> string \<Rightarrow> exn option \<times> state" where
  "save_account env st email password =
     (case current_setup st of
        None \<Rightarrow> (None, st)
      | Some setup \<Rightarrow>
     (case config st of
        None \<Rightarrow> (Some (key_error ''accounts''), st)
      | Some accs \<Rightarrow>
     (let st1 = st\<lparr>config := Some (dict_set email setup accs)\<rparr>
      in case keyring_set_password env st1 ''modern-mail'' email password of
        Inl e \<Rightarrow> (Some e, st1)
      | Inr st2 \<Rightarrow>
     (case save_config env st2 of
        (Some e, st3) \<Rightarrow> (Some e, st3)
      | (None, st3) \<Rightarrow> (None, refresh_emails env (show_dialog Dialog_accept st3))))))"

section \<open>Reading one message: \<open>view_email\<close>\<close>

text \<open>\<open>xs[i]\<close> for an index from 0 on\<close>

definition list_index :: "'a list \<Rightarrow> nat \<Rightarrow> exn + 'a" where
  "list_index xs i =
     (if i < length xs then Inr (xs ! i) else Inl (Exn IndexError ''list index out of range''))"

text \<open>
  The body: for a multipart message the first part of \<open>walk()\<close> whose content type is
  \<open>text/plain\<close>, the empty string when there is none; otherwise the payload of the message.
\<close>

fun first_text_plain :: "message list \<Rightarrow> exn + string" where
  "first_text_plain [] = Inr []"
| "first_text_plain (part # rest) =
     (if content_type part = ''text/plain'' then decode_payload part
      else first_text_plain rest)"

definition extract_body :: "message \<Rightarrow> exn + string" where
  "extract_body email_msg =
     (if is_multipart email_msg then first_text_plain (walk email_msg)
      else decode_payload email_msg)"

text \<open>The labels of the header box: one for each of the four fields with a true value.\<close>

definition header_labels :: "message \<Rightarrow> string list" where
  "header_labels email_msg =
     concat (map (\<lambda>(key, title).
                   case get_header email_msg key of
                     None \<Rightarrow> []
                   | Some v \<Rightarrow> if v = [] then [] else [''<b>'' @ title @ '':</b> '' @ v])
        [(''from'', ''From''), (''to'', ''To''), (''subject'', ''Subject''), (''date'', ''Date'')])"

text \<open>
  The attachments: the \<open>get_filename()\<close> of every part of \<open>walk()\<close> whose main type is not
  \<open>multipart\<close> and whose \<open>get('Content-Disposition')\<close> is true.
\<close>

definition is_attachment :: "message \<Rightarrow> bool" where
  "is_attachment part =
     (get_content_maintype part \<noteq> ''multipart'' \<and>
      (case get_header part ''Content-Disposition'' of None \<Rightarrow> False | Some v \<Rightarrow> v \<noteq> []))"

definition attachment_names :: "message \<Rightarrow> string option list" where
  "attachment_names email_msg = map filename (filter is_attachment (walk email_msg))"

fun show_nat :: "nat \<Rightarrow> string" where
  "show_nat n =
     (if n < 10 then [char_of (48 + n)]
      else show_nat (n div 10) @ [char_of (48 + n mod 10)])"

fun index_of_none :: "'a option list \<Rightarrow> nat option" where
  "index_of_none [] = None"
| "index_of_none (None # xs) = Some 0"
| "index_of_none (Some x # xs) = map_option Suc (index_of_none xs)"

fun intercalate :: "string \<Rightarrow> string list \<Rightarrow> string" where
  "intercalate sep [] = []"
| "intercalate sep [x] = x"
| "intercalate sep (x # y # ys) = x @ sep @ intercalate sep (y # ys)"

text \<open>\<open>", ".join(xs)\<close>: a \<open>TypeError\<close> names the first item that is not a string.\<close>

definition join_names :: "string option list \<Rightarrow> exn + string" where
  "join_names xs =
     (case index_of_none xs of
        Some i \<Rightarrow>
          Inl (Exn TypeError (''sequence item '' @ show_nat i @
                              '': expected str instance, NoneType found''))
      | None \<Rightarrow> Inr (intercalate '', '' (concat (map (\<lambda>x. case x of None \<Rightarrow> [] | Some n \<Rightarrow> [n]) xs))))"

text \<open>The paperclip U+1F4CE as its UTF-8 bytes.\<close>

definition icon_clip :: string where
  "icon_clip = [CHR 0xF0, CHR 0x9F, CHR 0x93, CHR 0x8E]"

definition attachment_label :: "message \<Rightarrow> exn + string option" where
  "attachment_label email_msg =
     (if is_multipart email_msg
      then (let attachments' = attachment_names email_msg
            in if attachments' = [] then Inr None
               else and_then (join_names attachments')
                      (\<lambda>joined. Inr (Some (icon_clip @ '' Attachments: '' @ joined))))
      else Inr None)"

text \<open>The \<open>try\<close> block of \<open>view_email\<close>: the viewer it opens.\<close>

definition view_body :: "env \<Rightarrow> state \<Rightarrow> string \<Rightarrow> nat \<Rightarrow> exn + ui_event" where
  "view_body env st account row =
     and_then (account_settings (config st) account) (\<lambda>s.
     and_then (keyring_get_password env st ''modern-mail'' account) (\<lambda>password.
     and_then (imap_session env s account password) (\<lambda>messages0.
     and_then (list_index (last20 (py_split messages0)) row) (\<lambda>email_id'.
     and_then (imap_fetch_rfc822 env email_id') (\<lambda>email_msg.
     and_then (extract_body email_msg) (\<lambda>body.
     and_then (attachment_label email_msg) (\<lambda>label.
     Inr (Viewer (header_labels email_msg) body label))))))))"

definition view_email :: "env \<Rightarrow> state \<Rightarrow> nat \<Rightarrow> state" where
  "view_email env st row =
     (let account = selector_text st
      in if account = [] then st
         else (case view_body env st account row of
                 Inr viewer \<Rightarrow> show_dialog viewer st
               | Inl e \<Rightarrow>
                   show_dialog (Warning ''Error'' (''Failed to open email: '' @ str e)) st))"

section \<open>Sending: \<open>compose_email\<close>, \<open>add_attachment\<close>, \<open>send_email\<close>\<close>

definition compose_email :: "state \<Rightarrow> state" where
  "compose_email st = st\<lparr>attachments := []\<rparr>"

definition add_attachment :: "state \<Rightarrow> string list \<Rightarrow> state" where
  "add_attachment st files' =
     (let st1 = st\<lparr>attachments := attachments st @ files'\<rparr>
      in if attachments st1 = [] then st1
         else show_dialog (Information ''Attachments''
                (''Added '' @ show_nat (length files') @ '' attachment(s)'')) st1)"

text \<open>\<open>Path(file_path).name\<close> of a path that names a file: what follows the last \<open>/\<close>.\<close>

definition path_name :: "string \<Rightarrow> string" where
  "path_name file_path = rev (takeWhile (\<lambda>c. c \<noteq> CHR ''/'') (rev file_path))"

definition disposition :: "string \<Rightarrow> string" where
  "disposition file_path =
     ''attachment; filename='' @ [CHR 0x22] @ path_name file_path @ [CHR 0x22]"

fun attach_files :: "env \<Rightarrow> string list \<Rightarrow> mime_multipart \<Rightarrow> exn + mime_multipart" where
  "attach_files env [] msg = Inr msg"
| "attach_files env (file_path # rest) msg =
     (case read_bytes env file_path of
        Inl e \<Rightarrow> Inl e
      | Inr data \<Rightarrow>
          attach_files env rest
            (msg\<lparr>mime_parts := mime_parts msg @
               [Octet_stream data [(''Content-Disposition'', disposition file_path)]]\<rparr>))"

text \<open>The \<open>try\<close> block of \<open>send_email\<close> up to the end of the SMTP session.\<close>

definition send_body :: "env \<Rightarrow> state \<Rightarrow> string \<Rightarrow> string \<Rightarrow> string \<Rightarrow> exn + unit" where
  "send_body env st to_addr subject' body =
     (let account = selector_text st
      in and_then (account_settings (config st) account) (\<lambda>s.
         and_then (keyring_get_password env st ''modern-mail'' account) (\<lambda>password.
         and_then (attach_files env (attachments st)
                    \<lparr>mime_headers = [(''From'', account), (''To'', to_addr), (''Subject'', subject')],
                     mime_parts = [MIMEText body]\<rparr>) (\<lambda>msg.
         and_then (raising (smtp_connect env (smtp_server s) (smtp_port s))) (\<lambda>_.
         and_then (raising (smtp_starttls env)) (\<lambda>_.
         and_then (raising (smtp_login env account password)) (\<lambda>_.
         raising (smtp_send_message env msg))))))))"

definition send_email :: "env \<Rightarrow> state \<Rightarrow> string \<Rightarrow> string \<Rightarrow> string \<Rightarrow> state" where
  "send_email env st to_addr subject' body =
     (case send_body env st to_addr subject' body of
        Inr _ \<Rightarrow>
          show_dialog Dialog_accept
            (show_dialog (Information ''Success'' ''Email sent successfully!'') st)
      | Inl e \<Rightarrow> show_dialog (Critical ''Error'' (''Failed to send email: '' @ str e)) st)"

section \<open>Example values\<close>

definition gmail :: settings where
  "gmail = \<lparr>smtp_server = ''smtp.gmail.com'', smtp_port = 587,
            imap_server = ''imap.gmail.com'', imap_port = 993\<rparr>"

definition alice :: string where
  "alice = ''alice@example.com''"

text \<open>A client that has just started, with no configuration file and an empty keyring.\<close>

definition fresh_state :: state where
  "fresh_state =
     \<lparr>config = None, current_setup = None, attachments = [], selector_items = [],
      selector_text = [], progress_visible = False, email_table = [], ui_log = [],
      secrets = (\<lambda>_. None), files = (\<lambda>_. None)\<rparr>"

text \<open>The Gmail button has been pressed in the add-account dialog.\<close>

definition setup_state :: state where
  "setup_state = quick_setup fresh_state ''smtp.gmail.com'' 587 ''imap.gmail.com'' 993"

text \<open>Alice's account is configured and selected; her password is in the keyring.\<close>

definition alice_state :: state where
  "alice_state =
     fresh_state\<lparr>config := Some [(alice, gmail)], selector_items := [alice],
                 selector_text := alice,
                 secrets := (\<lambda>_. None)((''modern-mail'', alice) \<mapsto> ''hunter2'')\<rparr>"

definition hello_msg :: message where
  "hello_msg =
     Part [(''From'', ''bob@example.com''), (''Subject'', ''Hi''),
           (''Date'', ''Mon, 01 Jan 2024 10:00:00 +0000'')]
          ''text/plain'' None (Inr ''Hello'')"

text \<open>
  Servers and libraries that answer every call: the mailbox holds the messages 1, 2 and
  3, each of them \<open>hello_msg\<close>, and only message 2 has been seen.
\<close>

definition ok_env :: env where
  "ok_env =
     \<lparr>keyring_set_error = None, keyring_get_error = None, write_fault = None,
      json_error = (\<lambda>t. Exn JSONDecodeError ''Expecting value: line 1 column 1 (char 0)''),
      read_bytes = (\<lambda>p. Inr ''%PDF''),
      smtp_connect = (\<lambda>host port. None), smtp_starttls = None,
      smtp_login = (\<lambda>user password. None), smtp_send_message = (\<lambda>msg. None),
      imap_connect = (\<lambda>host port. None), imap_login = (\<lambda>user password. None),
      imap_select = (\<lambda>mailbox. None), imap_search = Inr ''1 2 3'',
      imap_fetch_rfc822 = (\<lambda>num. Inr hello_msg),
      imap_fetch_flags =
        (\<lambda>num. Inr (num @ '' (FLAGS ('' @ (if num = ''2'' then seen_marker else []) @ ''))'')),
      format_date =
        (\<lambda>v. case v of
               None \<Rightarrow> Inl (Exn ValueError (''Invalid date value or format '' @ [CHR 0x22] @ ''None'' @ [CHR 0x22]))
             | Some d \<Rightarrow> Inr d)\<rparr>"

definition bob :: string where
  "bob = ''bob@example.com''"

text \<open>The same world with a keyring whose backend refuses to store.\<close>

definition locked_env :: env where
  "locked_env = ok_env\<lparr>keyring_set_error := Some (Exn KeyringError ''locked'')\<rparr>"

text \<open>The same world with 22 messages in the mailbox.\<close>

definition inbox22 :: string where
  "inbox22 =
     ''101 102 103 104 105 106 107 108 109 110 111 '' @
     ''112 113 114 115 116 117 118 119 120 121 122''"

definition busy_env :: env where
  "busy_env = ok_env\<lparr>imap_search := Inr inbox22\<rparr>"

text \<open>The number a sequence of decimal digits stands for.\<close>

definition decimal :: "string \<Rightarrow> nat" where
  "decimal s = foldl (\<lambda>n c. 10 * n + (of_char c - 48)) 0 s"

text \<open>The entry of \<open>emails\<close> that \<open>hello_msg\<close> gives under an id.\<close>

definition hello_summary :: "string \<Rightarrow> bool \<Rightarrow> summary" where
  "hello_summary num seen =
     \<lparr>email_id = num, status = (if seen then icon_read else icon_unread),
      date = ''Mon, 01 Jan 2024 10:00:00 +0000'', from_addr = Some ''bob@example.com'',
      subject = ''Hi''\<rparr>"

text \<open>A message with no \<open>Subject\<close> and no \<open>From\<close>, alone in the mailbox under the id 7.\<close>

definition anon_msg :: message where
  "anon_msg =
     Part [(''Date'', ''Mon, 01 Jan 2024 10:00:00 +0000'')] ''text/plain'' None (Inr ''Hello'')"

definition anon_env :: env where
  "anon_env = ok_env\<lparr>imap_search := Inr ''7'', imap_fetch_rfc822 := (\<lambda>num. Inr anon_msg)\<rparr>"

definition anon_summary :: summary where
  "anon_summary =
     \<lparr>email_id = ''7'', status = icon_unread, date = ''Mon, 01 Jan 2024 10:00:00 +0000'',
      from_addr = None, subject = ''(No Subject)''\<rparr>"

text \<open>
  Bob's account has been added in memory; the configuration file still holds the
  configuration with Alice alone.
\<close>

definition two_accounts_state :: state where
  "two_accounts_state =
     alice_state\<lparr>config := Some [(alice, gmail), (bob, gmail)],
                 files := (\<lambda>_. None)(CONFIG_FILE \<mapsto> Json_text (Some [(alice, gmail)]))\<rparr>"

text \<open>A disk that is full: the file can be opened, the write fails.\<close>

definition full_disk_env :: env where
  "full_disk_env =
     ok_env\<lparr>write_fault := Some (1, Exn OSError ''[Errno 28] No space left on device'')\<rparr>"

text \<open>
  A message as \<open>send_email\<close> builds it for the text \<open>Hello\<close> and the file \<open>report.pdf\<close>,
  as it comes back from \<open>email.message_from_bytes\<close>.
\<close>

definition text_part :: message where
  "text_part = Part [(''Content-Type'', ''text/plain'')] ''text/plain'' None (Inr ''Hello'')"

definition pdf_part :: message where
  "pdf_part =
     Part [(''Content-Type'', ''application/octet-stream''),
           (''Content-Disposition'', ''attachment; filename='' @ [CHR 0x22] @ ''report.pdf'' @ [CHR 0x22])]
          ''application/octet-stream'' (Some ''report.pdf'') (Inr ''%PDF'')"

definition report_msg :: message where
  "report_msg =
     Multi [(''From'', ''alice@example.com''), (''To'', ''bob@example.com''), (''Subject'', ''Hi''),
            (''Content-Type'', ''multipart/mixed'')]
           ''multipart/mixed'' None [text_part, pdf_part]"

text \<open>
  A message whose second part has a \<open>Content-Disposition\<close> field with an empty value, and
  takes its file name from the \<open>name\<close> of its content type; the mailbox that holds it.
\<close>

definition blank_part :: message where
  "blank_part =
     Part [(''Content-Type'', ''application/pdf; name=report.pdf''), (''Content-Disposition'', [])]
          ''application/pdf'' (Some ''report.pdf'') (Inr ''%PDF'')"

definition blank_msg :: message where
  "blank_msg =
     Multi [(''Subject'', ''Report''), (''Content-Type'', ''multipart/mixed'')]
           ''multipart/mixed'' None [text_part, blank_part]"

definition blank_env :: env where
  "blank_env = ok_env\<lparr>imap_search := Inr ''1'', imap_fetch_rfc822 := (\<lambda>num. Inr blank_msg)\<rparr>"

text \<open>
  Worlds in which the connection to either server fails with \<open>e\<close>, and worlds in which
  either server refuses the password with \<open>e\<close>; a client whose configuration file is empty.
\<close>

definition dropped_env :: "exn \<Rightarrow> env" where
  "dropped_env e = ok_env\<lparr>imap_connect := (\<lambda>host port. Some e), smtp_connect := (\<lambda>host port. Some e)\<rparr>"

definition denied_env :: "exn \<Rightarrow> env" where
  "denied_env e = ok_env\<lparr>imap_login := (\<lambda>user password. Some e), smtp_login := (\<lambda>user password. Some e)\<rparr>"

definition broken_file_state :: state where
  "broken_file_state = fresh_state\<lparr>files := (\<lambda>_. None)(CONFIG_FILE \<mapsto> Bad_text [])\<rparr>"

text \<open>
  A mailbox of three messages whose second one has no \<open>Date\<close> field, and a client that
  shows one row from an earlier refresh.
\<close>

definition undated_msg :: message where
  "undated_msg =
     Part [(''From'', ''bob@example.com''), (''Subject'', ''Hi'')] ''text/plain'' None
          (Inr ''Hello'')"

definition undated_env :: env where
  "undated_env =
     ok_env\<lparr>imap_fetch_rfc822 := (\<lambda>num. Inr (if num = ''2'' then undated_msg else hello_msg))\<rparr>"

definition stale_state :: state where
  "stale_state = alice_state\<lparr>email_table := [table_row (hello_summary ''1'' True)]\<rparr>"

section \<open>Basic facts\<close>

lemma and_then_Inr:
  "and_then r f = Inr y \<longleftrightarrow> (\<exists>x. r = Inr x \<and> f x = Inr y)"
  by (cases r) (simp_all add: and_then_def)

lemma and_then_Inl:
  "and_then r f = Inl e \<longleftrightarrow> (r = Inl e \<or> (\<exists>x. r = Inr x \<and> f x = Inl e))"
  by (cases r) (simp_all add: and_then_def)

lemma dict_set_key: "k \<in> fst ` set (dict_set k v d)"
  by (induction d) auto

lemma lower_names:
  "lower ''From'' = ''from''" "lower ''To'' = ''to''" "lower ''Subject'' = ''subject''"
  "lower ''Date'' = ''date''" "lower ''from'' = ''from''" "lower ''to'' = ''to''"
  "lower ''subject'' = ''subject''" "lower ''date'' = ''date''"
  "lower ''Content-Disposition'' = ''content-disposition''"
  "lower ''Content-Type'' = ''content-type''"
  by code_simp+

lemma setup_state_simps:
  "current_setup setup_state = Some gmail" "config setup_state = Some []"
  by (simp_all add: setup_state_def quick_setup_def fresh_state_def gmail_def)

lemma alice_state_simps:
  "selector_text alice_state = alice" "alice \<noteq> []"
  "account_settings (config alice_state) alice = Inr gmail"
  by (simp_all add: alice_state_def fresh_state_def alice_def account_settings_def dict_get_def)

section \<open>Adding an account\<close>

text \<open>
  C10. When \<open>save_account\<close> runs although no quick setup has been chosen, so that the
  attribute \<open>current_setup\<close> does not exist, nothing happens: the configuration in memory,
  the configuration file, the keyring and everything else in the state stay as they are,
  and no exception is raised.
\<close>

theorem save_account_without_setup:
  "current_setup st = None \<Longrightarrow> save_account env st email password = (None, st)"
  by (simp add: save_account_def)

theorem save_account_without_setup_witness:
  "current_setup fresh_state = None \<and>
   save_account ok_env fresh_state alice ''hunter2'' = (None, fresh_state)"
  using save_account_without_setup [of fresh_state ok_env alice "''hunter2''"]
  by (simp add: fresh_state_def)

text \<open>
  C1, as the program has it. When the keyring refuses the password, \<open>save_account\<close> ends
  with the keyring's exception. The configuration file, the keyring and the account
  selector are as before, but the entry written into \<open>self.config\<close> stays there: nothing
  takes it back, and the next list of accounts built from the configuration has the
  address in it.
\<close>

theorem save_account_vault_failure:
  assumes "current_setup st = Some pending" and "config st = Some accs"
    and "keyring_set_error env = Some e"
  shows "save_account env st email password =
           (Some e, st\<lparr>config := Some (dict_set email pending accs)\<rparr>) \<and>
         email \<in> set (selector_items
                        (update_account_list (snd (save_account env st email password))))"
proof -
  have r: "save_account env st email password =
           (Some e, st\<lparr>config := Some (dict_set email pending accs)\<rparr>)"
    using assms by (simp add: save_account_def keyring_set_password_def)
  have "dict_set email pending accs \<noteq> []"
    by (cases accs) auto
  then have "email \<in> set (selector_items
               (update_account_list (st\<lparr>config := Some (dict_set email pending accs)\<rparr>)))"
    using dict_set_key [of email pending accs]
    by (simp add: update_account_list_def Let_def)
  with r show ?thesis by simp
qed

theorem save_account_vault_failure_witness:
  "current_setup setup_state = Some gmail \<and> config setup_state = Some [] \<and>
   keyring_set_error locked_env = Some (Exn KeyringError ''locked'') \<and>
   save_account locked_env setup_state alice ''hunter2'' =
     (Some (Exn KeyringError ''locked''),
      setup_state\<lparr>config := Some (dict_set alice gmail [])\<rparr>) \<and>
   alice \<in> set (selector_items
                  (update_account_list
                     (snd (save_account locked_env setup_state alice ''hunter2''))))"
proof -
  have k: "keyring_set_error locked_env = Some (Exn KeyringError ''locked'')"
    by (simp add: locked_env_def)
  show ?thesis
    using save_account_vault_failure
            [OF setup_state_simps(1) setup_state_simps(2) k, of alice "''hunter2''"]
      setup_state_simps k
    by blast
qed

text \<open>
  C1, as the specification states it, fails: after the Gmail quick setup, with a keyring
  that raises, \<open>save_account\<close> for Alice raises, her entry is in the configuration in
  memory although the keyring has no secret for her, and the list of accounts built from
  that configuration shows her.
\<close>

theorem save_account_no_rollback_counterexample:
  "fst (save_account locked_env setup_state alice ''hunter2'') = Some (Exn KeyringError ''locked'') \<and>
   config (snd (save_account locked_env setup_state alice ''hunter2'')) = Some [(alice, gmail)] \<and>
   config (snd (save_account locked_env setup_state alice ''hunter2'')) \<noteq> config setup_state \<and>
   selector_items (update_account_list
      (snd (save_account locked_env setup_state alice ''hunter2''))) = [alice] \<and>
   secrets (snd (save_account locked_env setup_state alice ''hunter2'')) (''modern-mail'', alice) = None"
  by (simp add: save_account_def locked_env_def ok_env_def setup_state_def quick_setup_def
      fresh_state_def keyring_set_password_def update_account_list_def gmail_def)

section \<open>Refreshing the list of messages\<close>

subsection \<open>The loop over the ids\<close>

lemma fetch_summary_Inr:
  assumes "fetch_summary env num = Inr x"
  shows "\<exists>m flags d. imap_fetch_rfc822 env num = Inr m \<and> imap_fetch_flags env num = Inr flags \<and>
           format_date env (get_header m ''date'') = Inr d \<and>
           x = \<lparr>email_id = num,
                status = (if contains seen_marker flags then icon_read else icon_unread),
                date = d, from_addr = get_header m ''from'',
                subject = subject_or_default (get_header m ''subject'')\<rparr>"
  using assms by (auto simp: fetch_summary_def Let_def split: sum.splits)

lemma fetch_summary_id: "fetch_summary env num = Inr s \<Longrightarrow> email_id s = num"
  by (auto simp: fetch_summary_def Let_def split: sum.splits)

lemma fetch_summaries_ids:
  "fetch_summaries env nums acc = Inr emails \<Longrightarrow> map email_id emails = map email_id acc @ nums"
proof (induction nums arbitrary: acc)
  case Nil
  then show ?case by simp
next
  case (Cons num nums)
  then show ?case
    by (auto split: sum.splits dest: fetch_summary_id)
qed

lemma fetch_summaries_ok:
  "\<forall>num\<in>set nums. \<exists>s. fetch_summary env num = Inr s \<Longrightarrow>
   \<exists>emails. fetch_summaries env nums acc = Inr emails"
proof (induction nums arbitrary: acc)
  case Nil
  then show ?case by simp
next
  case (Cons num nums)
  then obtain s where "fetch_summary env num = Inr s" by auto
  with Cons show ?case by simp
qed

lemma fetch_summaries_each:
  "fetch_summaries env nums acc = Inr emails \<Longrightarrow> x \<in> set emails \<Longrightarrow>
   x \<in> set acc \<or> fetch_summary env (email_id x) = Inr x"
proof (induction nums arbitrary: acc)
  case Nil
  then show ?case by simp
next
  case (Cons num nums)
  then obtain s where s: "fetch_summary env num = Inr s"
    and rest: "fetch_summaries env nums (acc @ [s]) = Inr emails"
    by (auto split: sum.splits)
  from Cons.IH [OF rest Cons.prems(2)] s show ?case
    by (auto dest: fetch_summary_id)
qed

lemma refresh_body_each:
  assumes "refresh_body env st account = Inr emails" and "x \<in> set emails"
  shows "fetch_summary env (email_id x) = Inr x"
proof -
  from assms(1) obtain m0 where "fetch_summaries env (last20 (py_split m0)) [] = Inr emails"
    by (auto simp: refresh_body_def and_then_Inr)
  from fetch_summaries_each [OF this assms(2)] show ?thesis by simp
qed

subsection \<open>Substrings and the last twenty\<close>

lemma contains_iff: "contains sub s \<longleftrightarrow> (\<exists>pre post. s = pre @ sub @ post)"
proof (induction s)
  case Nil
  then show ?case by auto
next
  case (Cons c cs)
  have p: "take (length sub) (c # cs) = sub \<longleftrightarrow> (\<exists>post. c # cs = sub @ post)"
    by (metis append_eq_conv_conj)
  show ?case
  proof
    assume "contains sub (c # cs)"
    then consider "take (length sub) (c # cs) = sub" | "contains sub cs" by auto
    then show "\<exists>pre post. c # cs = pre @ sub @ post"
    proof cases
      case 1
      with p obtain post where "c # cs = sub @ post" by blast
      then have "c # cs = [] @ sub @ post" by simp
      then show ?thesis by blast
    next
      case 2
      with Cons obtain pre post where "cs = pre @ sub @ post" by blast
      then have "c # cs = (c # pre) @ sub @ post" by simp
      then show ?thesis by blast
    qed
  next
    assume "\<exists>pre post. c # cs = pre @ sub @ post"
    then obtain pre post where e: "c # cs = pre @ sub @ post" by blast
    show "contains sub (c # cs)"
    proof (cases pre)
      case Nil
      with e have "\<exists>post. c # cs = sub @ post" by auto
      with p have "take (length sub) (c # cs) = sub" by blast
      then show ?thesis by simp
    next
      case (Cons a pre')
      with e have "cs = pre' @ sub @ post" by simp
      with Cons.IH show ?thesis by auto
    qed
  qed
qed

lemma last20_length: "length (last20 xs) = min (length xs) 20"
  by (simp add: last20_def)

lemma last20_last: "xs \<noteq> [] \<Longrightarrow> last (last20 xs) = last xs"
  by (simp add: last20_def)

lemma last20_Nil: "last20 xs = [] \<longleftrightarrow> xs = []"
proof -
  have "length xs \<le> length xs - 20 \<longleftrightarrow> length xs = 0" by arith
  then show ?thesis by (simp add: last20_def)
qed

lemma sorted_le_last: "sorted xs \<Longrightarrow> x \<in> set xs \<Longrightarrow> (x::nat) \<le> last xs"
  by (induction xs) auto

subsection \<open>The example mailboxes\<close>

lemma ok_split: "py_split ''1 2 3'' = [''1'', ''2'', ''3'']"
  by (simp add: py_split_def is_space_def)

lemma seen_contains:
  "contains seen_marker (''2 (FLAGS ('' @ seen_marker @ ''))'')"
  "\<not> contains seen_marker ''1 (FLAGS ())''"
  "\<not> contains seen_marker ''3 (FLAGS ())''"
  by (simp_all add: seen_marker_def)

lemma ok_fetch:
  "fetch_summary ok_env ''1'' = Inr (hello_summary ''1'' False)"
  "fetch_summary ok_env ''2'' = Inr (hello_summary ''2'' True)"
  "fetch_summary ok_env ''3'' = Inr (hello_summary ''3'' False)"
  using seen_contains
  by (simp_all add: fetch_summary_def ok_env_def hello_msg_def get_header_def lower_names
      hello_summary_def subject_or_default_def)

lemma ok_keyring:
  "keyring_get_password ok_env alice_state ''modern-mail'' alice = Inr (Some ''hunter2'')"
  by (simp add: keyring_get_password_def ok_env_def alice_state_def fresh_state_def)

lemma ok_session: "imap_session ok_env gmail alice (Some ''hunter2'') = Inr ''1 2 3''"
  by (simp add: imap_session_def ok_env_def and_then_def raising_def)

lemma ok_refresh_body:
  "refresh_body ok_env alice_state alice =
     Inr [hello_summary ''1'' False, hello_summary ''2'' True, hello_summary ''3'' False]"
  by (simp add: refresh_body_def alice_state_simps ok_keyring ok_session and_then_def ok_split
      last20_def ok_fetch)

lemma busy_env_simps:
  "keyring_get_password busy_env alice_state ''modern-mail'' alice = Inr (Some ''hunter2'')"
  "imap_session busy_env gmail alice (Some ''hunter2'') = Inr inbox22"
  "\<exists>x. fetch_summary busy_env num = Inr x"
  by (simp_all add: busy_env_def ok_env_def keyring_get_password_def alice_state_def
      fresh_state_def imap_session_def and_then_def raising_def
      fetch_summary_def hello_msg_def get_header_def lower_names)

lemma inbox22_split: "py_split inbox22 =
  [''101'', ''102'', ''103'', ''104'', ''105'', ''106'', ''107'', ''108'',
   ''109'', ''110'', ''111'', ''112'', ''113'', ''114'', ''115'', ''116'',
   ''117'', ''118'', ''119'', ''120'', ''121'', ''122'']"
  by (simp add: inbox22_def py_split_def is_space_def)

lemma inbox22_sorted: "sorted (map decimal (py_split inbox22))"
  by (simp add: inbox22_split decimal_def)

subsection \<open>What one refresh shows\<close>

lemma fetch_summary_answers:
  assumes "imap_fetch_rfc822 env num = Inr m" and "imap_fetch_flags env num = Inr flags"
    and "format_date env (get_header m ''date'') = Inr d"
  shows "\<exists>x. fetch_summary env num = Inr x"
  using assms by (simp add: fetch_summary_def)

text \<open>
  C2, as the program has it. Let the session open and \<open>SEARCH ALL\<close> answer with N ids,
  and let the server answer both fetches for each of the last twenty of them with a
  message whose \<open>Date\<close> field the library can read. Then one refresh builds exactly
  min(N, 20) summaries, for the last twenty ids in the order of the answer, and the table
  shows them in reverse: its first row is the summary of the last id of the answer, and
  under any numbering \<open>f\<close> for which the answer is ascending no fetched id has a higher
  number than the one of the first row.
\<close>

theorem refresh_shows_last_20:
  assumes "selector_text st = account" and "account \<noteq> []"
    and "account_settings (config st) account = Inr s"
    and "keyring_get_password env st ''modern-mail'' account = Inr password"
    and "imap_session env s account password = Inr messages0"
    and "\<forall>num\<in>set (last20 (py_split messages0)).
           \<exists>m flags d. imap_fetch_rfc822 env num = Inr m \<and>
             imap_fetch_flags env num = Inr flags \<and>
             format_date env (get_header m ''date'') = Inr d"
  shows "\<exists>emails. refresh_body env st account = Inr emails \<and>
           length emails = min (length (py_split messages0)) 20 \<and>
           map email_id emails = last20 (py_split messages0) \<and>
           email_table (refresh_emails env st) = map table_row (rev emails) \<and>
           (emails \<noteq> [] \<longrightarrow> email_id (hd (rev emails)) = last (py_split messages0)) \<and>
           (sorted (map f (py_split messages0)) \<longrightarrow>
              (\<forall>x\<in>set emails. (f (email_id x) :: nat) \<le> f (email_id (hd (rev emails)))))"
proof -
  let ?ids = "py_split messages0"
  from assms(6) have "\<forall>num\<in>set (last20 ?ids). \<exists>x. fetch_summary env num = Inr x"
    by (blast dest: fetch_summary_answers)
  from fetch_summaries_ok [OF this] obtain emails
    where f: "fetch_summaries env (last20 ?ids) [] = Inr emails" by blast
  have body: "refresh_body env st account = Inr emails"
    using assms(3-5) f by (simp add: refresh_body_def and_then_def)
  have ids: "map email_id emails = last20 ?ids"
    using fetch_summaries_ids [OF f] by simp
  have len: "length emails = min (length ?ids) 20"
    using ids last20_length [of ?ids] by (metis length_map)
  have table: "email_table (refresh_emails env st) = map table_row (rev emails)"
    using assms(1,2) body by (simp add: refresh_emails_def)
  have first: "email_id (hd (rev emails)) = last ?ids" if ne: "emails \<noteq> []"
  proof -
    have "email_id (hd (rev emails)) = last (map email_id emails)"
      using ne by (simp add: hd_rev last_map)
    also have "\<dots> = last (last20 ?ids)" by (simp add: ids)
    also have "\<dots> = last ?ids"
      using ne ids last20_Nil [of ?ids] by (intro last20_last) auto
    finally show ?thesis .
  qed
  have top: "f (email_id x) \<le> f (email_id (hd (rev emails)))"
    if srt: "sorted (map f ?ids)" and x: "x \<in> set emails" for x
  proof -
    have ne: "emails \<noteq> []" using x by auto
    have "email_id x \<in> set (last20 ?ids)" using x ids by (metis image_eqI set_map)
    then have xin: "email_id x \<in> set ?ids" by (auto simp: last20_def dest: in_set_dropD)
    then have ne': "?ids \<noteq> []" by auto
    have "f (email_id x) \<in> set (map f ?ids)" using xin by simp
    with srt have "f (email_id x) \<le> last (map f ?ids)"
      by (rule sorted_le_last)
    then show ?thesis using first [OF ne] ne' by (simp add: last_map)
  qed
  from body len ids table first top show ?thesis by blast
qed

theorem refresh_shows_last_20_witness:
  "selector_text alice_state = alice \<and> alice \<noteq> [] \<and>
   account_settings (config alice_state) alice = Inr gmail \<and>
   keyring_get_password busy_env alice_state ''modern-mail'' alice = Inr (Some ''hunter2'') \<and>
   imap_session busy_env gmail alice (Some ''hunter2'') = Inr inbox22 \<and>
   length (py_split inbox22) = 22 \<and> sorted (map decimal (py_split inbox22)) \<and>
   (\<exists>emails. refresh_body busy_env alice_state alice = Inr emails \<and>
      length emails = 20 \<and>
      map email_id emails = last20 (py_split inbox22) \<and>
      email_table (refresh_emails busy_env alice_state) = map table_row (rev emails) \<and>
      email_id (hd (rev emails)) = ''122'' \<and>
      (\<forall>x\<in>set emails. decimal (email_id x) \<le> decimal (email_id (hd (rev emails)))))"
proof -
  have h6: "\<forall>num\<in>set (last20 (py_split inbox22)).
              \<exists>m flags d. imap_fetch_rfc822 busy_env num = Inr m \<and>
                imap_fetch_flags busy_env num = Inr flags \<and>
                format_date busy_env (get_header m ''date'') = Inr d"
    by (simp add: busy_env_def ok_env_def hello_msg_def get_header_def lower_names)
  have n: "length (py_split inbox22) = 22" by (simp add: inbox22_split)
  have l: "last (py_split inbox22) = ''122''" by (simp add: inbox22_split)
  from refresh_shows_last_20 [OF alice_state_simps(1) alice_state_simps(2) alice_state_simps(3)
      busy_env_simps(1) busy_env_simps(2) h6, of decimal]
  obtain emails where e: "refresh_body busy_env alice_state alice = Inr emails"
      "length emails = min (length (py_split inbox22)) 20"
      "map email_id emails = last20 (py_split inbox22)"
      "email_table (refresh_emails busy_env alice_state) = map table_row (rev emails)"
      "emails \<noteq> [] \<longrightarrow> email_id (hd (rev emails)) = last (py_split inbox22)"
      "sorted (map decimal (py_split inbox22)) \<longrightarrow>
         (\<forall>x\<in>set emails. decimal (email_id x) \<le> decimal (email_id (hd (rev emails))))"
    by blast
  from e(2) n have len: "length emails = 20" by simp
  then have ne: "emails \<noteq> []" by auto
  from e(5) ne l have top: "email_id (hd (rev emails)) = ''122''" by simp
  from e(6) inbox22_sorted
  have mx: "\<forall>x\<in>set emails. decimal (email_id x) \<le> decimal (email_id (hd (rev emails)))"
    by blast
  show ?thesis
    using alice_state_simps busy_env_simps(1,2) n inbox22_sorted e(1) len e(3) e(4) top mx
    by blast
qed

text \<open>
  C2, as the specification states it, fails: the session opens and \<open>SEARCH ALL\<close> answers
  with three ids, but the second message has no \<open>Date\<close> field; the refresh ends in its
  handler with the library's \<open>ValueError\<close>, builds no summary, and the table keeps the one
  row it had, not three.
\<close>

theorem refresh_undated_counterexample:
  "selector_text stale_state = alice \<and>
   account_settings (config stale_state) alice = Inr gmail \<and>
   keyring_get_password undated_env stale_state ''modern-mail'' alice = Inr (Some ''hunter2'') \<and>
   imap_session undated_env gmail alice (Some ''hunter2'') = Inr ''1 2 3'' \<and>
   length (py_split ''1 2 3'') = 3 \<and>
   get_header undated_msg ''date'' = None \<and>
   refresh_body undated_env stale_state alice =
     Inl (Exn ValueError (''Invalid date value or format '' @ [CHR 0x22] @ ''None'' @ [CHR 0x22])) \<and>
   email_table (refresh_emails undated_env stale_state) = email_table stale_state \<and>
   length (email_table (refresh_emails undated_env stale_state)) = 1 \<and>
   ui_log (refresh_emails undated_env stale_state) =
     [Warning ''Error''
        (''Failed to fetch emails: Invalid date value or format '' @ [CHR 0x22] @ ''None'' @ [CHR 0x22])]"
proof -
  have sel: "selector_text stale_state = alice"
    by (simp add: stale_state_def alice_state_def fresh_state_def)
  have acc: "account_settings (config stale_state) alice = Inr gmail"
    using alice_state_simps(3) by (simp add: stale_state_def)
  have k: "keyring_get_password undated_env stale_state ''modern-mail'' alice
             = Inr (Some ''hunter2'')"
    by (simp add: keyring_get_password_def undated_env_def ok_env_def stale_state_def
        alice_state_def fresh_state_def)
  have s: "imap_session undated_env gmail alice (Some ''hunter2'') = Inr ''1 2 3''"
    by (simp add: imap_session_def undated_env_def ok_env_def and_then_def raising_def)
  have h: "get_header undated_msg ''date'' = None"
    by (simp add: undated_msg_def get_header_def lower_names)
  have f1: "fetch_summary undated_env ''1'' = Inr (hello_summary ''1'' False)"
    using seen_contains
    by (simp add: fetch_summary_def undated_env_def ok_env_def hello_msg_def get_header_def
        lower_names hello_summary_def subject_or_default_def)
  have f2: "fetch_summary undated_env ''2'' =
              Inl (Exn ValueError (''Invalid date value or format '' @ [CHR 0x22] @ ''None'' @ [CHR 0x22]))"
    by (simp add: fetch_summary_def undated_env_def ok_env_def h)
  have b: "refresh_body undated_env stale_state alice =
             Inl (Exn ValueError (''Invalid date value or format '' @ [CHR 0x22] @ ''None'' @ [CHR 0x22]))"
    by (simp add: refresh_body_def acc k s and_then_def ok_split last20_def f1 f2)
  have r: "refresh_emails undated_env stale_state =
             (show_dialog (Warning ''Error'' (''Failed to fetch emails: '' @
                 ''Invalid date value or format '' @ [CHR 0x22] @ ''None'' @ [CHR 0x22])) stale_state)
               \<lparr>progress_visible := False\<rparr>"
    using sel alice_state_simps(2) b by (simp add: refresh_emails_def)
  have t: "email_table (refresh_emails undated_env stale_state) = email_table stale_state"
    by (simp add: r show_dialog_def)
  have n: "length (email_table stale_state) = 1" by (simp add: stale_state_def)
  have u: "ui_log (refresh_emails undated_env stale_state) =
     [Warning ''Error''
        (''Failed to fetch emails: Invalid date value or format '' @ [CHR 0x22] @ ''None'' @ [CHR 0x22])]"
    unfolding r by (simp add: show_dialog_def stale_state_def alice_state_def fresh_state_def)
  have l: "length (py_split ''1 2 3'') = 3" by (simp add: ok_split)
  from sel acc k s l h b t n u show ?thesis by simp
qed

text \<open>
  C5. Every summary that a refresh builds stands for a message whose \<open>FLAGS\<close> fetch
  answered, and it carries the icon of a read message exactly when the text of that
  answer contains \<open>\Seen\<close>, the icon of an unread message exactly when it does not. Nothing
  but the answer to the \<open>FLAGS\<close> fetch enters.
\<close>

theorem read_flag_from_flags:
  assumes "refresh_body env st account = Inr emails" and "x \<in> set emails"
  shows "\<exists>flags. imap_fetch_flags env (email_id x) = Inr flags \<and>
           (status x = icon_read \<longleftrightarrow> (\<exists>pre post. flags = pre @ seen_marker @ post)) \<and>
           (status x = icon_unread \<longleftrightarrow> \<not> (\<exists>pre post. flags = pre @ seen_marker @ post))"
proof -
  have ne: "icon_read \<noteq> icon_unread" by (simp add: icon_read_def icon_unread_def)
  from refresh_body_each [OF assms] have "fetch_summary env (email_id x) = Inr x" .
  from fetch_summary_Inr [OF this]
  obtain m flags d where fl: "imap_fetch_flags env (email_id x) = Inr flags"
    and x: "x = \<lparr>email_id = email_id x,
                status = (if contains seen_marker flags then icon_read else icon_unread),
                date = d, from_addr = get_header m ''from'',
                subject = subject_or_default (get_header m ''subject'')\<rparr>"
    by blast
  have st: "status x = (if contains seen_marker flags then icon_read else icon_unread)"
    by (subst x) simp
  from st ne have "(status x = icon_read \<longleftrightarrow> contains seen_marker flags) \<and>
                   (status x = icon_unread \<longleftrightarrow> \<not> contains seen_marker flags)"
    by auto
  with fl show ?thesis by (simp add: contains_iff)
qed

theorem read_flag_from_flags_witness:
  "refresh_body ok_env alice_state alice =
     Inr [hello_summary ''1'' False, hello_summary ''2'' True, hello_summary ''3'' False] \<and>
   hello_summary ''2'' True
     \<in> set [hello_summary ''1'' False, hello_summary ''2'' True, hello_summary ''3'' False] \<and>
   (\<exists>flags. imap_fetch_flags ok_env (email_id (hello_summary ''2'' True)) = Inr flags \<and>
      (status (hello_summary ''2'' True) = icon_read
         \<longleftrightarrow> (\<exists>pre post. flags = pre @ seen_marker @ post)) \<and>
      (status (hello_summary ''2'' True) = icon_unread
         \<longleftrightarrow> \<not> (\<exists>pre post. flags = pre @ seen_marker @ post)))"
proof -
  have m: "hello_summary ''2'' True
     \<in> set [hello_summary ''1'' False, hello_summary ''2'' True, hello_summary ''3'' False]"
    by simp
  from read_flag_from_flags [OF ok_refresh_body m] ok_refresh_body m
  show ?thesis by blast
qed

text \<open>
  C9. Every summary that a refresh builds stands for a fetched message, and its subject
  is \<open>(No Subject)\<close> when the message has no \<open>Subject\<close> field or an empty one, and the
  value of the field, unchanged, otherwise; the fourth column of its row shows it.
\<close>

theorem subject_or_placeholder:
  assumes "refresh_body env st account = Inr emails" and "x \<in> set emails"
  shows "\<exists>m. imap_fetch_rfc822 env (email_id x) = Inr m \<and>
           ((get_header m ''subject'' = None \<or> get_header m ''subject'' = Some [])
              \<longrightarrow> subject x = ''(No Subject)'') \<and>
           (\<forall>v. get_header m ''subject'' = Some v \<and> v \<noteq> [] \<longrightarrow> subject x = v) \<and>
           table_row x ! 3 = subject x"
proof -
  from refresh_body_each [OF assms] have "fetch_summary env (email_id x) = Inr x" .
  from fetch_summary_Inr [OF this]
  obtain m flags d where m: "imap_fetch_rfc822 env (email_id x) = Inr m"
    and x: "x = \<lparr>email_id = email_id x,
                status = (if contains seen_marker flags then icon_read else icon_unread),
                date = d, from_addr = get_header m ''from'',
                subject = subject_or_default (get_header m ''subject'')\<rparr>"
    by blast
  have sj: "subject x = subject_or_default (get_header m ''subject'')"
    by (subst x) simp
  from sj have "((get_header m ''subject'' = None \<or> get_header m ''subject'' = Some [])
              \<longrightarrow> subject x = ''(No Subject)'') \<and>
           (\<forall>v. get_header m ''subject'' = Some v \<and> v \<noteq> [] \<longrightarrow> subject x = v)"
    by (auto simp: subject_or_default_def)
  moreover have "table_row x ! 3 = subject x"
    by (simp add: table_row_def numeral_3_eq_3)
  ultimately show ?thesis using m by blast
qed

lemma anon_refresh_body: "refresh_body anon_env alice_state alice = Inr [anon_summary]"
proof -
  have s: "imap_session anon_env gmail alice (Some ''hunter2'') = Inr ''7''"
    by (simp add: imap_session_def anon_env_def ok_env_def and_then_def raising_def)
  have k: "keyring_get_password anon_env alice_state ''modern-mail'' alice = Inr (Some ''hunter2'')"
    by (simp add: keyring_get_password_def anon_env_def ok_env_def alice_state_def fresh_state_def)
  have sp: "py_split ''7'' = [''7'']" by (simp add: py_split_def is_space_def)
  have c: "\<not> contains seen_marker ''7 (FLAGS ())''" by (simp add: seen_marker_def)
  have f: "fetch_summary anon_env ''7'' = Inr anon_summary"
    using c by (simp add: fetch_summary_def anon_env_def ok_env_def anon_msg_def get_header_def
        lower_names anon_summary_def subject_or_default_def)
  show ?thesis
    by (simp add: refresh_body_def alice_state_simps k s and_then_def sp last20_def f)
qed

theorem subject_or_placeholder_witness:
  "refresh_body anon_env alice_state alice = Inr [anon_summary] \<and>
   anon_summary \<in> set [anon_summary] \<and>
   imap_fetch_rfc822 anon_env (email_id anon_summary) = Inr anon_msg \<and>
   get_header anon_msg ''subject'' = None \<and>
   subject anon_summary = ''(No Subject)'' \<and>
   table_row anon_summary ! 3 = ''(No Subject)''"
proof -
  have m: "anon_summary \<in> set [anon_summary]" by simp
  have f: "imap_fetch_rfc822 anon_env (email_id anon_summary) = Inr anon_msg"
    by (simp add: anon_env_def)
  have h: "get_header anon_msg ''subject'' = None"
    by (simp add: anon_msg_def get_header_def lower_names)
  from subject_or_placeholder [OF anon_refresh_body m] f h
  have "subject anon_summary = ''(No Subject)'' \<and> table_row anon_summary ! 3 = subject anon_summary"
    by auto
  with anon_refresh_body m f h show ?thesis by simp
qed

section \<open>Saving the configuration\<close>

lemma save_config_files:
  "files (snd (save_config env st)) =
     files_during_save st (case write_fault env of None \<Rightarrow> 2 | Some (k, e) \<Rightarrow> min k 2)"
  by (auto simp: save_config_def write_text_def files_during_save_def save_config_ops_def
      write_text_ops_def update_account_list_def Let_def split: option.splits prod.splits)

text \<open>
  C7, as the program has it. \<open>save_config\<close> writes the configuration file in place: it
  opens the file itself for writing, which empties it, and then writes the new text. No
  other file is touched and nothing is renamed. While a save is under way the file is
  first what it was, then empty, then the new configuration; a save that is cut short
  leaves the file in the state it had reached.
\<close>

theorem save_config_writes_in_place:
  "save_config_ops st = [Open_w CONFIG_FILE, Write CONFIG_FILE (Json_text (config st))] \<and>
   files_during_save st 0 = files st \<and>
   files_during_save st 1 = (files st)(CONFIG_FILE \<mapsto> Bad_text []) \<and>
   files_during_save st 2 = (files st)(CONFIG_FILE \<mapsto> Json_text (config st)) \<and>
   files (snd (save_config env st)) =
     files_during_save st (case write_fault env of None \<Rightarrow> 2 | Some (k, e) \<Rightarrow> min k 2)"
  using save_config_files [of env st]
  by (simp add: save_config_ops_def write_text_ops_def files_during_save_def run_fs_ops_def
      numeral_2_eq_2)

text \<open>
  C7, as the specification states it, fails: with Alice's configuration on disk and a
  second account to be saved, the file is empty after the first file-system call of the
  save, neither the old nor the new configuration; on a full disk the save raises and
  leaves the file like that, and the next \<open>load_config\<close> fails on it.
\<close>

theorem save_config_partial_file_counterexample:
  "files two_accounts_state CONFIG_FILE = Some (Json_text (Some [(alice, gmail)])) \<and>
   files_during_save two_accounts_state 1 CONFIG_FILE = Some (Bad_text []) \<and>
   files_during_save two_accounts_state 1 CONFIG_FILE \<noteq> files two_accounts_state CONFIG_FILE \<and>
   files_during_save two_accounts_state 1 CONFIG_FILE
     \<noteq> Some (Json_text (config two_accounts_state)) \<and>
   fst (save_config full_disk_env two_accounts_state)
     = Some (Exn OSError ''[Errno 28] No space left on device'') \<and>
   files (snd (save_config full_disk_env two_accounts_state)) CONFIG_FILE = Some (Bad_text []) \<and>
   fst (load_config ok_env (snd (save_config full_disk_env two_accounts_state)))
     = Some (Exn JSONDecodeError ''Expecting value: line 1 column 1 (char 0)'')"
  by (simp add: two_accounts_state_def alice_state_def fresh_state_def files_during_save_def
      save_config_ops_def write_text_ops_def run_fs_ops_def save_config_def write_text_def
      full_disk_env_def ok_env_def load_config_def Let_def)

section \<open>Viewing a message\<close>

lemma first_text_plain_none:
  "\<forall>p\<in>set ps. content_type p \<noteq> ''text/plain'' \<Longrightarrow> first_text_plain ps = Inr []"
  by (induction ps) auto

lemma first_text_plain_first:
  "content_type p = ''text/plain'' \<Longrightarrow> \<forall>q\<in>set pre. content_type q \<noteq> ''text/plain'' \<Longrightarrow>
   first_text_plain (pre @ p # post) = decode_payload p"
  by (induction pre) auto

lemma is_attachment_iff:
  "is_attachment p \<longleftrightarrow>
     get_content_maintype p \<noteq> ''multipart'' \<and>
     (\<exists>v. get_header p ''Content-Disposition'' = Some v \<and> v \<noteq> [])"
  by (auto simp: is_attachment_def split: option.splits)

lemma index_of_none_Some: "index_of_none (map Some xs) = None"
  by (induction xs) auto

lemma concat_Some: "concat (map (\<lambda>x. case x of None \<Rightarrow> [] | Some n \<Rightarrow> [n]) (map Some xs)) = xs"
  by (induction xs) auto

lemma join_names_Some: "join_names (map Some names) = Inr (intercalate '', '' names)"
  by (simp only: join_names_def index_of_none_Some concat_Some option.case)

text \<open>
  C4, as the program has it. For a multipart message the body is the decoded payload of the
  first part, in the order of \<open>walk()\<close> (the message itself, then its parts, depth first),
  whose content type is \<open>text/plain\<close>, and the empty string when there is no such part. The
  attachments are the parts whose main type is not \<open>multipart\<close> and whose
  \<open>Content-Disposition\<close> field is there with a value that is not empty; the file name of
  each is recorded, and when every one of them has a file name the viewer lists the names.
\<close>

theorem view_body_and_attachments:
  assumes "is_multipart email_msg"
  shows "((\<forall>p\<in>set (walk email_msg). content_type p \<noteq> ''text/plain'')
            \<longrightarrow> extract_body email_msg = Inr []) \<and>
         (\<forall>pre p post. walk email_msg = pre @ p # post \<and> content_type p = ''text/plain'' \<and>
              (\<forall>q\<in>set pre. content_type q \<noteq> ''text/plain'')
            \<longrightarrow> extract_body email_msg = decode_payload p) \<and>
         attachment_names email_msg =
           map filename
             (filter (\<lambda>p. get_content_maintype p \<noteq> ''multipart'' \<and>
                           (\<exists>v. get_header p ''Content-Disposition'' = Some v \<and> v \<noteq> []))
                (walk email_msg)) \<and>
         (\<forall>names. attachment_names email_msg = map Some names
            \<longrightarrow> attachment_label email_msg =
                 Inr (if names = [] then None
                      else Some (icon_clip @ '' Attachments: '' @ intercalate '', '' names)))"
proof (intro conjI allI impI)
  assume "\<forall>p\<in>set (walk email_msg). content_type p \<noteq> ''text/plain''"
  then show "extract_body email_msg = Inr []"
    using assms by (simp add: extract_body_def first_text_plain_none)
next
  fix pre p post
  assume "walk email_msg = pre @ p # post \<and> content_type p = ''text/plain'' \<and>
          (\<forall>q\<in>set pre. content_type q \<noteq> ''text/plain'')"
  then show "extract_body email_msg = decode_payload p"
    using assms by (simp add: extract_body_def first_text_plain_first)
next
  have "filter is_attachment (walk email_msg) =
        filter (\<lambda>p. get_content_maintype p \<noteq> ''multipart'' \<and>
                     (\<exists>v. get_header p ''Content-Disposition'' = Some v \<and> v \<noteq> []))
          (walk email_msg)"
    by (rule filter_cong) (simp_all add: is_attachment_iff)
  then show "attachment_names email_msg =
           map filename
             (filter (\<lambda>p. get_content_maintype p \<noteq> ''multipart'' \<and>
                           (\<exists>v. get_header p ''Content-Disposition'' = Some v \<and> v \<noteq> []))
                (walk email_msg))"
    by (simp add: attachment_names_def)
next
  fix names
  assume n: "attachment_names email_msg = map Some names"
  show "attachment_label email_msg =
          Inr (if names = [] then None
               else Some (icon_clip @ '' Attachments: '' @ intercalate '', '' names))"
    using assms n by (simp add: attachment_label_def Let_def join_names_Some and_then_def)
qed

lemma report_walk: "walk report_msg = [report_msg] @ text_part # [pdf_part]"
  by (simp add: report_msg_def text_part_def pdf_part_def)

lemma report_types:
  "content_type text_part = ''text/plain''" "content_type report_msg \<noteq> ''text/plain''"
  "decode_payload text_part = Inr ''Hello''" "is_multipart report_msg"
  by (simp_all add: report_msg_def text_part_def)

lemma report_attachments: "attachment_names report_msg = map Some [''report.pdf'']"
  by (simp add: attachment_names_def report_walk is_attachment_def get_content_maintype_def
      get_header_def lower_names)
     (simp add: report_msg_def text_part_def pdf_part_def lower_names)

theorem view_body_and_attachments_witness:
  "is_multipart report_msg \<and>
   walk report_msg = [report_msg] @ text_part # [pdf_part] \<and>
   extract_body report_msg = Inr ''Hello'' \<and>
   attachment_names report_msg = [Some ''report.pdf''] \<and>
   attachment_label report_msg = Inr (Some (icon_clip @ '' Attachments: report.pdf''))"
proof -
  note t = view_body_and_attachments [OF report_types(4)]
  have q: "\<forall>q\<in>set [report_msg]. content_type q \<noteq> ''text/plain''"
    using report_types(2) by simp
  from t report_walk report_types(1) q
  have b: "extract_body report_msg = decode_payload text_part" by blast
  from t report_attachments
  have l: "attachment_label report_msg =
             Inr (if [''report.pdf''] = [] then None
                  else Some (icon_clip @ '' Attachments: '' @ intercalate '', '' [''report.pdf'']))"
    by blast
  from b l report_types report_walk report_attachments show ?thesis by simp
qed

lemma blank_walk: "walk blank_msg = [blank_msg, text_part, blank_part]"
  by (simp add: blank_msg_def text_part_def blank_part_def)

text \<open>
  C4, as the specification states it, fails: a part that carries a \<open>Content-Disposition\<close>
  field with an empty value, and whose main type is not \<open>multipart\<close>, is not among the
  attachments, and the viewer opens without the line of attachments.
\<close>

theorem empty_disposition_counterexample:
  "is_multipart blank_msg \<and>
   filter (\<lambda>p. get_content_maintype p \<noteq> ''multipart'' \<and>
                get_header p ''Content-Disposition'' \<noteq> None) (walk blank_msg) = [blank_part] \<and>
   filename blank_part = Some ''report.pdf'' \<and>
   attachment_names blank_msg = [] \<and>
   ui_log (view_email blank_env alice_state 0) = [Viewer [''<b>Subject:</b> Report''] ''Hello'' None]"
proof -
  have k: "keyring_get_password blank_env alice_state ''modern-mail'' alice = Inr (Some ''hunter2'')"
    by (simp add: keyring_get_password_def blank_env_def ok_env_def alice_state_def fresh_state_def)
  have s: "imap_session blank_env gmail alice (Some ''hunter2'') = Inr ''1''"
    by (simp add: imap_session_def blank_env_def ok_env_def and_then_def raising_def)
  have sp: "py_split ''1'' = [''1'']" by (simp add: py_split_def is_space_def)
  have f: "filter (\<lambda>p. get_content_maintype p \<noteq> ''multipart'' \<and>
                get_header p ''Content-Disposition'' \<noteq> None) (walk blank_msg) = [blank_part]"
    by (simp add: blank_walk get_content_maintype_def get_header_def)
       (simp add: blank_msg_def text_part_def blank_part_def lower_names)
  have a: "attachment_names blank_msg = []"
    by (simp add: attachment_names_def blank_walk is_attachment_def get_content_maintype_def
        get_header_def)
       (simp add: blank_msg_def text_part_def blank_part_def lower_names)
  have b: "extract_body blank_msg = Inr ''Hello''"
    by (simp add: extract_body_def blank_walk) (simp add: blank_msg_def text_part_def)
  have h: "header_labels blank_msg = [''<b>Subject:</b> Report'']"
    by (simp add: header_labels_def get_header_def blank_msg_def lower_names)
  have l: "attachment_label blank_msg = Inr None"
    by (simp add: attachment_label_def a) 
  have v: "view_body blank_env alice_state alice 0 =
             Inr (Viewer [''<b>Subject:</b> Report''] ''Hello'' None)"
    by (simp add: view_body_def alice_state_simps k s and_then_def sp last20_def list_index_def
        b h l) (simp add: blank_env_def b h l)
  have u: "ui_log (view_email blank_env alice_state 0) =
             [Viewer [''<b>Subject:</b> Report''] ''Hello'' None]"
    using alice_state_simps(1,2) v
    by (simp add: view_email_def show_dialog_def) (simp add: alice_state_def fresh_state_def)
  have m: "is_multipart blank_msg" by (simp add: blank_msg_def)
  have n: "filename blank_part = Some ''report.pdf''" by (simp add: blank_part_def)
  from m f n a u show ?thesis by simp
qed


lemma view_body_shows:
  assumes "view_body env st account row = Inr v"
  shows "\<exists>num m body label. imap_fetch_rfc822 env num = Inr m \<and> extract_body m = Inr body \<and>
           attachment_label m = Inr label \<and> v = Viewer (header_labels m) body label"
  using assms by (auto simp: view_body_def and_then_Inr)

section \<open>Failures\<close>

text \<open>
  C6, as the program has it. \<open>send_email\<close>, \<open>refresh_emails\<close> and \<open>view_email\<close> catch every
  exception: the operation returns normally, and all that is left of the failure is a
  message box with a fixed prefix followed by \<open>str(e)\<close>; the class of the exception is
  dropped. \<open>load_config\<close> and \<open>save_account\<close> have no handler: the exception of
  \<open>json.loads\<close> or of the keyring leaves the operation as it was raised.
\<close>

theorem failures_become_message_boxes:
  "(send_body env st to_addr subject' body = Inl e \<longrightarrow>
      send_email env st to_addr subject' body =
        show_dialog (Critical ''Error'' (''Failed to send email: '' @ str e)) st) \<and>
   (selector_text st \<noteq> [] \<and> refresh_body env st (selector_text st) = Inl e \<longrightarrow>
      refresh_emails env st =
        (show_dialog (Warning ''Error'' (''Failed to fetch emails: '' @ str e)) st)
          \<lparr>progress_visible := False\<rparr>) \<and>
   (selector_text st \<noteq> [] \<and> view_body env st (selector_text st) row = Inl e \<longrightarrow>
      view_email env st row =
        show_dialog (Warning ''Error'' (''Failed to open email: '' @ str e)) st) \<and>
   (files st CONFIG_FILE = Some (Bad_text t) \<longrightarrow>
      fst (load_config env st) = Some (json_error env t)) \<and>
   (current_setup st = Some pending \<and> config st = Some accs \<and> keyring_set_error env = Some e \<longrightarrow>
      fst (save_account env st email password) = Some e)"
  by (simp add: send_email_def refresh_emails_def view_email_def load_config_def
      save_account_def keyring_set_password_def Let_def)

lemma dropped_bodies:
  "send_body (dropped_env e) alice_state bob ''Hi'' ''Hello'' = Inl e"
  "refresh_body (dropped_env e) alice_state alice = Inl e"
  "view_body (dropped_env e) alice_state alice 0 = Inl e"
  by (simp_all add: send_body_def refresh_body_def view_body_def alice_state_simps
      imap_session_def and_then_def raising_def keyring_get_password_def)
     (simp_all add: dropped_env_def ok_env_def alice_state_def fresh_state_def
      account_settings_def dict_get_def raising_def gmail_def)

lemma denied_bodies:
  "send_body (denied_env e) alice_state bob ''Hi'' ''Hello'' = Inl e"
  "refresh_body (denied_env e) alice_state alice = Inl e"
  "view_body (denied_env e) alice_state alice 0 = Inl e"
  by (simp_all add: send_body_def refresh_body_def view_body_def alice_state_simps
      imap_session_def and_then_def raising_def keyring_get_password_def)
     (simp_all add: denied_env_def ok_env_def alice_state_def fresh_state_def
      account_settings_def dict_get_def raising_def gmail_def)

text \<open>
  C6, as the specification states it, fails: a connection that times out and a login that
  is refused with the same text are exceptions of different classes, and \<open>refresh_emails\<close>,
  \<open>send_email\<close> and \<open>view_email\<close> each end in the same state for both.
\<close>

theorem error_kind_lost_counterexample:
  "kind (Exn OSError ''timed out'') \<noteq> kind (Exn IMAPError ''timed out'') \<and>
   refresh_body (dropped_env (Exn OSError ''timed out'')) alice_state alice
     = Inl (Exn OSError ''timed out'') \<and>
   refresh_body (denied_env (Exn IMAPError ''timed out'')) alice_state alice
     = Inl (Exn IMAPError ''timed out'') \<and>
   refresh_emails (dropped_env (Exn OSError ''timed out'')) alice_state
     = refresh_emails (denied_env (Exn IMAPError ''timed out'')) alice_state \<and>
   ui_log (refresh_emails (dropped_env (Exn OSError ''timed out'')) alice_state)
     = [Warning ''Error'' ''Failed to fetch emails: timed out''] \<and>
   send_email (dropped_env (Exn OSError ''timed out'')) alice_state bob ''Hi'' ''Hello''
     = send_email (denied_env (Exn SMTPError ''timed out'')) alice_state bob ''Hi'' ''Hello'' \<and>
   view_email (dropped_env (Exn OSError ''timed out'')) alice_state 0
     = view_email (denied_env (Exn IMAPError ''timed out'')) alice_state 0"
  using alice_state_simps(1,2)
  by (simp add: refresh_emails_def send_email_def view_email_def dropped_bodies denied_bodies
      show_dialog_def) (simp add: alice_state_def fresh_state_def)

lemma broken_file: "files broken_file_state CONFIG_FILE = Some (Bad_text [])"
  by (simp add: broken_file_state_def fresh_state_def)

theorem failures_become_message_boxes_witness:
  "send_body (denied_env (Exn SMTPError ''(535, bad credentials)'')) alice_state bob ''Hi'' ''Hello''
     = Inl (Exn SMTPError ''(535, bad credentials)'') \<and>
   send_email (denied_env (Exn SMTPError ''(535, bad credentials)'')) alice_state bob ''Hi'' ''Hello''
     = show_dialog (Critical ''Error'' ''Failed to send email: (535, bad credentials)'') alice_state \<and>
   selector_text alice_state \<noteq> [] \<and>
   refresh_body (dropped_env (Exn OSError ''timed out'')) alice_state (selector_text alice_state)
     = Inl (Exn OSError ''timed out'') \<and>
   refresh_emails (dropped_env (Exn OSError ''timed out'')) alice_state
     = (show_dialog (Warning ''Error'' ''Failed to fetch emails: timed out'') alice_state)
         \<lparr>progress_visible := False\<rparr> \<and>
   view_body (dropped_env (Exn OSError ''timed out'')) alice_state (selector_text alice_state) 0
     = Inl (Exn OSError ''timed out'') \<and>
   view_email (dropped_env (Exn OSError ''timed out'')) alice_state 0
     = show_dialog (Warning ''Error'' ''Failed to open email: timed out'') alice_state \<and>
   files broken_file_state CONFIG_FILE = Some (Bad_text []) \<and>
   fst (load_config ok_env broken_file_state) = Some (json_error ok_env []) \<and>
   current_setup setup_state = Some gmail \<and> config setup_state = Some [] \<and>
   keyring_set_error locked_env = Some (Exn KeyringError ''locked'') \<and>
   fst (save_account locked_env setup_state alice ''hunter2'') = Some (Exn KeyringError ''locked'')"
proof -
  have k: "keyring_set_error locked_env = Some (Exn KeyringError ''locked'')"
    by (simp add: locked_env_def)
  have ne: "selector_text alice_state \<noteq> []" using alice_state_simps by simp
  have sel: "selector_text alice_state = alice" by (rule alice_state_simps(1))
  note d1 = denied_bodies(1) [of "Exn SMTPError ''(535, bad credentials)''"]
  note r1 = dropped_bodies(2) [of "Exn OSError ''timed out''"]
  note v1 = dropped_bodies(3) [of "Exn OSError ''timed out''"]
  from failures_become_message_boxes
         [of "denied_env (Exn SMTPError ''(535, bad credentials)'')" alice_state bob "''Hi''"
             "''Hello''" "Exn SMTPError ''(535, bad credentials)''"] d1
  have a: "send_email (denied_env (Exn SMTPError ''(535, bad credentials)'')) alice_state bob ''Hi'' ''Hello''
     = show_dialog (Critical ''Error'' ''Failed to send email: (535, bad credentials)'') alice_state"
    by simp
  from failures_become_message_boxes
         [of "dropped_env (Exn OSError ''timed out'')" alice_state _ _ _ "Exn OSError ''timed out''" 0]
       r1 v1 ne sel
  have b: "refresh_emails (dropped_env (Exn OSError ''timed out'')) alice_state
     = (show_dialog (Warning ''Error'' ''Failed to fetch emails: timed out'') alice_state)
         \<lparr>progress_visible := False\<rparr>"
    and c: "view_email (dropped_env (Exn OSError ''timed out'')) alice_state 0
     = show_dialog (Warning ''Error'' ''Failed to open email: timed out'') alice_state"
    by simp_all
  from failures_become_message_boxes [of ok_env broken_file_state _ _ _ _ _ "[]"] broken_file
  have d: "fst (load_config ok_env broken_file_state) = Some (json_error ok_env [])"
    by simp
  from failures_become_message_boxes
         [of locked_env setup_state _ _ _ "Exn KeyringError ''locked''" _ _ gmail "[]" alice "''hunter2''"]
       setup_state_simps k
  have e: "fst (save_account locked_env setup_state alice ''hunter2'') = Some (Exn KeyringError ''locked'')"
    by simp
  from a b c d e d1 r1 v1 ne sel broken_file setup_state_simps k show ?thesis by simp
qed

end
